theory Spec2Isabelle
  imports Main "HOL-Library.Sublist"
begin

section \<open>Product Fairy: the client-side session ledger, resume and regeneration\<close>

text \<open>
  The development embeds the handlers of \<^verbatim>\<open>frontend/src/App.jsx\<close> and the
  persistence layer \<^verbatim>\<open>frontend/src/lib/imageDb.js\<close>. React state is one record
  that each handler takes and returns; an \<^verbatim>\<open>async\<close> handler is cut at its
  \<^verbatim>\<open>await\<close> points into a start part, an event step and an end part, and the
  answer of the server is an argument of the handler. A JavaScript string is a
  \<^typ>\<open>string\<close> holding the UTF-8 bytes of its text; a property that may be
  \<^verbatim>\<open>undefined\<close> or \<^verbatim>\<open>null\<close> is a \<^typ>\<open>string option\<close>. The operations on the
  IndexedDB store (\<^verbatim>\<open>put\<close>, \<^verbatim>\<open>clear\<close>) are taken to succeed. A handler made by
  \<^verbatim>\<open>useCallback\<close> reads the state cells of the render that made it; where that
  matters (\<^verbatim>\<open>handleRegenerate\<close>) the model takes the state of that render as a
  separate argument.
\<close>

subsection \<open>JavaScript operators used by the handlers\<close>

text \<open>\<^verbatim>\<open>x || d\<close> on a string property: the default is taken when the property is
  missing and also when it is the empty string (both are falsy).\<close>

definition js_or :: "string option \<Rightarrow> string \<Rightarrow> string" where
  "js_or x d = (case x of None \<Rightarrow> d | Some s \<Rightarrow> if s = [] then d else s)"

text \<open>The same operator where the right operand may be missing too
  (\<^verbatim>\<open>result.prompt || image.prompt\<close>).\<close>

definition js_or_opt :: "string option \<Rightarrow> string option \<Rightarrow> string option" where
  "js_or_opt x y = (case x of None \<Rightarrow> y | Some s \<Rightarrow> if s = [] then y else Some s)"

text \<open>Truthiness of a state cell that holds \<^verbatim>\<open>null\<close> or a string.\<close>

definition truthy :: "string option \<Rightarrow> bool" where
  "truthy x = (case x of None \<Rightarrow> False | Some s \<Rightarrow> s \<noteq> [])"

text \<open>\<^verbatim>\<open>s.replace(/-/g, '')\<close>: every hyphen is dropped, left to right.\<close>

fun replace_dashes :: "string \<Rightarrow> string" where
  "replace_dashes [] = []"
| "replace_dashes (c # cs) =
     (if c = CHR ''-'' then replace_dashes cs else c # replace_dashes cs)"

text \<open>The characters that \<^verbatim>\<open>String.prototype.trim\<close> removes, each as its UTF-8
  bytes: the white space of ECMAScript (tab, vertical tab, form feed, space, no-break
  space U+00A0, U+1680, U+2000 to U+200A, U+202F, U+205F, U+3000, the byte order mark
  U+FEFF) and its line terminators (line feed, carriage return, U+2028, U+2029).\<close>

definition white_space :: "string list" where
  "white_space =
     [[CHR 0x09], [CHR 0x0A], [CHR 0x0B], [CHR 0x0C], [CHR 0x0D], [CHR 0x20],
      [CHR 0xC2, CHR 0xA0],
      [CHR 0xE1, CHR 0x9A, CHR 0x80],
      [CHR 0xE2, CHR 0x80, CHR 0x80], [CHR 0xE2, CHR 0x80, CHR 0x81],
      [CHR 0xE2, CHR 0x80, CHR 0x82], [CHR 0xE2, CHR 0x80, CHR 0x83],
      [CHR 0xE2, CHR 0x80, CHR 0x84], [CHR 0xE2, CHR 0x80, CHR 0x85],
      [CHR 0xE2, CHR 0x80, CHR 0x86], [CHR 0xE2, CHR 0x80, CHR 0x87],
      [CHR 0xE2, CHR 0x80, CHR 0x88], [CHR 0xE2, CHR 0x80, CHR 0x89],
      [CHR 0xE2, CHR 0x80, CHR 0x8A],
      [CHR 0xE2, CHR 0x80, CHR 0xA8], [CHR 0xE2, CHR 0x80, CHR 0xA9],
      [CHR 0xE2, CHR 0x80, CHR 0xAF],
      [CHR 0xE2, CHR 0x81, CHR 0x9F],
      [CHR 0xE3, CHR 0x80, CHR 0x80],
      [CHR 0xEF, CHR 0xBB, CHR 0xBF]]"

text \<open>Removing, as long as there is one, a leading occurrence of one of the given byte
  sequences.\<close>

function strip_leading :: "string list \<Rightarrow> string \<Rightarrow> string" where
  "strip_leading ws s =
     (case find (\<lambda>w. w \<noteq> [] \<and> prefix w s) ws of
        None \<Rightarrow> s
      | Some w \<Rightarrow> strip_leading ws (drop (length w) s))"
  by pat_completeness auto
termination
  by (relation "measure (\<lambda>(ws, s). length s)") (auto simp: find_Some_iff prefix_def)

text \<open>\<^verbatim>\<open>s.trim()\<close>: white space is removed at the start and then at the end (the
  end is the start of the reversed bytes).\<close>

definition js_trim :: "string \<Rightarrow> string" where
  "js_trim s = rev (strip_leading (map rev white_space) (rev (strip_leading white_space s)))"

text \<open>\<^verbatim>\<open>new Set(array)\<close> keeps the first occurrence of every element in insertion
  order; \<^verbatim>\<open>set.has(x)\<close> is membership.\<close>

fun Set_add :: "'a list \<Rightarrow> 'a \<Rightarrow> 'a list" where
  "Set_add s x = (if x \<in> set s then s else s @ [x])"

definition new_Set :: "'a list \<Rightarrow> 'a list" where
  "new_Set xs = foldl Set_add [] xs"

definition Set_has :: "'a list \<Rightarrow> 'a \<Rightarrow> bool" where
  "Set_has s x = (x \<in> set s)"

subsection \<open>Variant records and the client-side filename\<close>

text \<open>A product (variant) as the store builder keeps it; only the fields the handlers
  read are modelled. Each field is a string or is missing.\<close>

record product =
  ProductNumber :: "string option"
  ProductName :: "string option"
  GenderCode :: "string option"
  ColorCode :: "string option"
  ColorName :: "string option"

text \<open>The body of the filter callback of \<^verbatim>\<open>handleResume\<close>:
  \<^verbatim>\<open>const pn = String(p.ProductNumber || '').replace(/-/g, '');\<close>
  \<^verbatim>\<open>const fn = `${pn}${p.GenderCode || 'U'}${p.ColorCode || ''}`;\<close>\<close>

definition deriveFilename :: "'a product_scheme \<Rightarrow> string" where
  "deriveFilename p =
     replace_dashes (js_or (ProductNumber p) []) @ js_or (GenderCode p) ''U'' @ js_or (ColorCode p) []"

text \<open>The name under which the gallery offers an image for download
  (\<^verbatim>\<open>link.download = `${image.filename}.jpg`\<close> in \<^verbatim>\<open>handleDownloadSingle\<close>).\<close>

definition downloadName :: "string \<Rightarrow> string" where
  "downloadName fn = fn @ ''.jpg''"

text \<open>The resume computation of \<^verbatim>\<open>handleResume\<close>: the completed filenames become a
  \<^verbatim>\<open>Set\<close> and the products are filtered by absence from it.\<close>

definition remaining :: "string list \<Rightarrow> 'a product_scheme list \<Rightarrow> 'a product_scheme list" where
  "remaining completedFilenames ps =
     (let completedSet = new_Set completedFilenames
      in filter (\<lambda>p. \<not> Set_has completedSet (deriveFilename p)) ps)"

subsection \<open>The Filename Deriver as the specification words it\<close>

text \<open>The Filename Deriver in the words of the specification (sections 4.1 and 6), to
  compare the client-side derivation with: every non-alphanumeric character of the
  product number is removed, then come the gender code (a neutral code when absent),
  the colour code (empty when absent) and the fixed image extension. The neutral code is
  \<^verbatim>\<open>U\<close> and the extension \<^verbatim>\<open>.jpg\<close>, as in the specification's example and the
  README.\<close>

definition is_alnum :: "char \<Rightarrow> bool" where
  "is_alnum c =
     (c \<in> set ''ABCDEFGHIJKLMNOPQRSTUVWXYZabcdefghijklmnopqrstuvwxyz0123456789'')"

definition strip_non_alnum :: "string \<Rightarrow> string" where
  "strip_non_alnum s = filter is_alnum s"

definition spec_derive :: "'a product_scheme \<Rightarrow> string" where
  "spec_derive p =
     strip_non_alnum (case ProductNumber p of None \<Rightarrow> [] | Some s \<Rightarrow> s)
     @ (case GenderCode p of None \<Rightarrow> ''U'' | Some g \<Rightarrow> g)
     @ (case ColorCode p of None \<Rightarrow> [] | Some c \<Rightarrow> c)
     @ ''.jpg''"

subsection \<open>Client state\<close>

text \<open>An entry of the image collection, as the \<^verbatim>\<open>image\<close> case of the event switch
  builds it from the event's fields.\<close>

record image =
  filename :: string
  productName :: "string option"
  colorName :: "string option"
  productNumber :: "string option"
  genderCode :: "string option"
  colorCode :: "string option"
  prompt :: "string option"
  data :: string

text \<open>The progress cursor \<^verbatim>\<open>{ current, total, product }\<close>; the third field is named
  \<open>productLabel\<close> here because \<open>product\<close> is the record of a variant.\<close>

record progress_t =
  current :: nat
  total :: nat
  productLabel :: string

text \<open>The record kept under \<^verbatim>\<open>pf-generation-session\<close>. Its \<^verbatim>\<open>photoStyle\<close> field is
  \<open>photoStyle_s\<close> here, the state cell of the same name keeps \<open>photoStyle\<close>.\<close>

record session =
  products :: "product list option"
  photoStyle_s :: "string option"
  completedFilenames :: "string list"
  totalCount :: nat
  mode :: string

text \<open>The answer of \<^verbatim>\<open>/api/validate-csv\<close>, as far as \<^verbatim>\<open>handleGenerate\<close> reads it.\<close>

record validation_t =
  valid :: bool
  rowCount :: nat

text \<open>The state cells of \<^verbatim>\<open>App\<close> that the modelled handlers read or write, and the
  IndexedDB object store of \<^verbatim>\<open>imageDb.js\<close> (key path \<^verbatim>\<open>filename\<close>).
  \<open>abortControllerRef\<close> tells whether the ref holds a controller; \<open>fileSelected\<close> whether the
  cell \<^verbatim>\<open>file\<close> holds a file. The hook \<^verbatim>\<open>useLocalStorage\<close> is not part of the sources: its
  setter is taken to behave as the setter of \<^verbatim>\<open>useState\<close> (a function argument is
  applied to the previous value).\<close>

record app_state =
  apiKey :: string
  isGenerating :: bool
  progress :: progress_t
  images :: "image list"
  error :: string
  isComplete :: bool
  abortControllerRef :: bool
  fileSelected :: bool
  validation :: "validation_t option"
  generatedProducts :: "product list"
  photoStyle :: string
  regeneratingFilename :: "string option"
  generationSession :: "session option"
  showResumeBanner :: bool
  imageDb :: "string \<rightharpoonup> image"

text \<open>The initial values of the state cells (the arguments of \<^verbatim>\<open>useState\<close>,
  \<^verbatim>\<open>useLocalStorage\<close> and \<^verbatim>\<open>useSessionStorage\<close>) over an empty object store.\<close>

definition init_state :: app_state where
  "init_state =
     \<lparr>apiKey = [], isGenerating = False,
      progress = \<lparr>current = 0, total = 0, productLabel = []\<rparr>,
      images = [], error = [], isComplete = False, abortControllerRef = False,
      fileSelected = False, validation = None, generatedProducts = [], photoStyle = [],
      regeneratingFilename = None, generationSession = None, showResumeBanner = False,
      imageDb = Map.empty\<rparr>"

subsection \<open>The server's answers and the requests sent\<close>

text \<open>An exception reaching a \<^verbatim>\<open>catch\<close>: the handlers only ask whether its name is
  \<^verbatim>\<open>AbortError\<close> and otherwise read its message.\<close>

datatype js_exn = AbortError | OtherError string

text \<open>One parsed line of the event stream. \<open>IgnoredEv\<close> stands for a line without the
  \<^verbatim>\<open>data: \<close> prefix, a line whose JSON does not parse (caught and logged) and an
  event of a type the switch has no case for.\<close>

datatype sse_event =
    ProgressEv nat nat string
  | ImageEv image
  | ErrorEv string
  | CompleteEv
  | IgnoredEv

text \<open>How reading the stream ends: \<^verbatim>\<open>done\<close>, or \<^verbatim>\<open>reader.read()\<close> throws (an abort
  makes it throw an \<^verbatim>\<open>AbortError\<close>).\<close>

datatype stream_end = Done | Thrown js_exn

text \<open>The answer to a streaming request: \<^verbatim>\<open>fetch\<close> throws; or the response is not
  ok and reading its JSON body throws or gives the optional \<^verbatim>\<open>detail\<close>; or the events
  handled before the stream ends.\<close>

datatype sse_response =
    FetchThrows js_exn
  | NotOk "js_exn + string option"
  | Ok "sse_event list" stream_end

record regen_result =
  result_data :: string
  result_prompt :: "string option"

text \<open>The answer to \<^verbatim>\<open>/api/regenerate-single\<close>. This request carries no abort
  signal and its \<^verbatim>\<open>catch\<close> reads only the message of what was thrown, so a thrown
  exception is its message here.\<close>

datatype regen_response =
    RFetchThrows string
  | RNotOk "string + string option"
  | ROk "string + regen_result"

datatype request =
    GenerateReq string
  | GenerateFromProductsReq string "product list" string
  | RegenerateSingleReq string "string option" "string option" "string option"
      "string option" "string option" "string option"

subsection \<open>Batch generation\<close>

text \<open>The \<^verbatim>\<open>switch (data.type)\<close> of the stream loop; it is the same in
  \<^verbatim>\<open>handleGenerate\<close> and \<^verbatim>\<open>handleGenerateImages\<close>. \<^verbatim>\<open>saveImage\<close> is a
  \<^verbatim>\<open>put\<close> under the image's filename.\<close>

fun on_event :: "app_state \<Rightarrow> sse_event \<Rightarrow> app_state" where
  "on_event st (ProgressEv c t p) =
     st\<lparr>progress := \<lparr>current = c, total = t, productLabel = p\<rparr>\<rparr>"
| "on_event st (ImageEv img) =
     st\<lparr>images := images st @ [img],
        imageDb := (imageDb st)(filename img \<mapsto> img),
        generationSession :=
          (case generationSession st of
             None \<Rightarrow> None
           | Some prev \<Rightarrow>
               Some (prev\<lparr>completedFilenames := completedFilenames prev @ [filename img]\<rparr>))\<rparr>"
| "on_event st (ErrorEv message) =
     st\<lparr>error := (if error st \<noteq> [] then error st @ [CHR 0x0A] @ message else message)\<rparr>"
| "on_event st CompleteEv = st\<lparr>isComplete := True, generationSession := None\<rparr>"
| "on_event st IgnoredEv = st"

text \<open>The \<^verbatim>\<open>catch\<close> of both generation handlers; \<open>dflt\<close> is the handler's fallback
  message (\<^verbatim>\<open>err.message || '...'\<close>).\<close>

fun catch_generate :: "string \<Rightarrow> app_state \<Rightarrow> js_exn \<Rightarrow> app_state" where
  "catch_generate dflt st AbortError = st"
| "catch_generate dflt st (OtherError message) = st\<lparr>error := js_or (Some message) dflt\<rparr>"

definition finally_generate :: "app_state \<Rightarrow> app_state" where
  "finally_generate st = st\<lparr>abortControllerRef := False, isGenerating := False\<rparr>"

text \<open>The \<^verbatim>\<open>try\<close> block with its \<^verbatim>\<open>catch\<close>, from the state the start part left:
  \<open>notOkMsg\<close> is the fallback of \<^verbatim>\<open>errorData.detail || '...'\<close>.\<close>

fun try_stream :: "string \<Rightarrow> string \<Rightarrow> app_state \<Rightarrow> sse_response \<Rightarrow> app_state" where
  "try_stream notOkMsg dflt st (FetchThrows e) = catch_generate dflt st e"
| "try_stream notOkMsg dflt st (NotOk (Inl e)) = catch_generate dflt st e"
| "try_stream notOkMsg dflt st (NotOk (Inr detail)) =
     catch_generate dflt st (OtherError (js_or detail notOkMsg))"
| "try_stream notOkMsg dflt st (Ok evs Done) = foldl on_event st evs"
| "try_stream notOkMsg dflt st (Ok evs (Thrown e)) =
     catch_generate dflt (foldl on_event st evs) e"

text \<open>\<^verbatim>\<open>handleGenerateImages\<close> up to its \<^verbatim>\<open>try\<close>.\<close>

definition generateImages_start :: "app_state \<Rightarrow> product list \<Rightarrow> bool \<Rightarrow> app_state" where
  "generateImages_start st ps isResume =
     st\<lparr>abortControllerRef := True,
        isGenerating := True,
        images := (if isResume then images st else []),
        imageDb := (if isResume then imageDb st else Map.empty),
        progress := \<lparr>current = 0, total = length ps, productLabel = []\<rparr>,
        error := [],
        isComplete := False,
        showResumeBanner := False,
        generationSession :=
          (if isResume then generationSession st
           else Some \<lparr>products = Some (generatedProducts st),
                      photoStyle_s = Some (photoStyle st),
                      completedFilenames = [],
                      totalCount = length (generatedProducts st),
                      mode = ''store-builder''\<rparr>)\<rparr>"

text \<open>\<^verbatim>\<open>handleGenerateImages(productsToGenerate, isResume)\<close>. The first argument is
  \<open>Some\<close> of a list when \<^verbatim>\<open>Array.isArray\<close> holds of it and \<open>None\<close> otherwise (the
  style screen passes a click event). The result pairs the final state with the
  requests sent.\<close>

definition handleGenerateImages ::
  "app_state \<Rightarrow> product list option \<Rightarrow> bool \<Rightarrow> sse_response \<Rightarrow> app_state \<times> request list" where
  "handleGenerateImages st productsToGenerate isResume resp =
     (let ps = (case productsToGenerate of Some l \<Rightarrow> l | None \<Rightarrow> generatedProducts st)
      in if apiKey st = [] \<or> ps = [] \<or> js_trim (photoStyle st) = [] then (st, [])
         else (finally_generate
                 (try_stream ''Image generation failed'' ''Failed to generate images''
                    (generateImages_start st ps isResume) resp),
               [GenerateFromProductsReq (apiKey st) ps (photoStyle st)]))"

text \<open>\<^verbatim>\<open>handleGenerate\<close> (CSV mode) up to its \<^verbatim>\<open>try\<close>, and the handler.\<close>

definition generate_start :: "app_state \<Rightarrow> nat \<Rightarrow> app_state" where
  "generate_start st rows =
     st\<lparr>abortControllerRef := True,
        isGenerating := True,
        images := [],
        imageDb := Map.empty,
        progress := \<lparr>current = 0, total = rows, productLabel = []\<rparr>,
        error := [],
        isComplete := False,
        showResumeBanner := False,
        generationSession :=
          Some \<lparr>products = None, photoStyle_s = None, completedFilenames = [],
                totalCount = rows, mode = ''csv''\<rparr>\<rparr>"

definition handleGenerate :: "app_state \<Rightarrow> sse_response \<Rightarrow> app_state \<times> request list" where
  "handleGenerate st resp =
     (case validation st of
        None \<Rightarrow> (st, [])
      | Some v \<Rightarrow>
          if apiKey st = [] \<or> \<not> fileSelected st \<or> \<not> valid v then (st, [])
          else (finally_generate
                  (try_stream ''Generation failed'' ''Failed to generate images''
                     (generate_start st (rowCount v)) resp),
                [GenerateReq (apiKey st)]))"

text \<open>\<^verbatim>\<open>handleCancel\<close>: the second component tells whether \<^verbatim>\<open>abort()\<close> was called.\<close>

definition handleCancel :: "app_state \<Rightarrow> app_state \<times> bool" where
  "handleCancel st =
     (if abortControllerRef st then (st\<lparr>abortControllerRef := False\<rparr>, True) else (st, False))"

subsection \<open>Resume and dismissal\<close>

text \<open>\<^verbatim>\<open>handleResume\<close>. \<open>None\<close> is the uncaught \<^verbatim>\<open>TypeError\<close> of calling
  \<^verbatim>\<open>filter\<close> on \<^verbatim>\<open>null\<close>, for a stored record in store-builder mode without a
  product list.\<close>

definition handleResume :: "app_state \<Rightarrow> sse_response \<Rightarrow> (app_state \<times> request list) option" where
  "handleResume st resp =
     (case generationSession st of
        None \<Rightarrow> Some (st\<lparr>showResumeBanner := False\<rparr>, [])
      | Some s \<Rightarrow>
          if mode s \<noteq> ''store-builder'' then Some (st\<lparr>showResumeBanner := False\<rparr>, [])
          else (case products s of
                  None \<Rightarrow> None
                | Some ps \<Rightarrow>
                    (let rem = remaining (completedFilenames s) ps
                     in if length rem = 0
                        then Some (st\<lparr>showResumeBanner := False, generationSession := None\<rparr>, [])
                        else Some (handleGenerateImages st (Some rem) True resp))))"

definition handleDismissResume :: "app_state \<Rightarrow> app_state" where
  "handleDismissResume st = st\<lparr>showResumeBanner := False, generationSession := None\<rparr>"

subsection \<open>Single-image regeneration\<close>

text \<open>\<^verbatim>\<open>replaceImage(filename, newImage)\<close> of \<^verbatim>\<open>imageDb.js\<close>:
  \<^verbatim>\<open>db.put(STORE_NAME, { ...newImage, filename })\<close>.\<close>

definition replaceImage :: "(string \<rightharpoonup> image) \<Rightarrow> string \<Rightarrow> image \<Rightarrow> (string \<rightharpoonup> image)" where
  "replaceImage db fn newImage = db(fn \<mapsto> newImage\<lparr>filename := fn\<rparr>)"

text \<open>The guard of \<^verbatim>\<open>handleRegenerate\<close>: \<^verbatim>\<open>if (!apiKey || regeneratingFilename) return;\<close>\<close>

definition regenerate_blocked :: "app_state \<Rightarrow> bool" where
  "regenerate_blocked st = (apiKey st = [] \<or> truthy (regeneratingFilename st))"

text \<open>The handler up to its first \<^verbatim>\<open>await\<close>: the marker is set, the error cleared and
  the request sent.\<close>

definition regenerate_begin :: "app_state \<Rightarrow> string \<Rightarrow> image \<Rightarrow> app_state \<times> request list" where
  "regenerate_begin st fn img =
     (st\<lparr>regeneratingFilename := Some fn, error := []\<rparr>,
      [RegenerateSingleReq (apiKey st) (productNumber img) (productName img) (genderCode img)
         (colorCode img) (colorName img) (prompt img)])"

definition newImg :: "image \<Rightarrow> regen_result \<Rightarrow> image" where
  "newImg img r = img\<lparr>data := result_data r, prompt := js_or_opt (result_prompt r) (prompt img)\<rparr>"

definition catch_regenerate :: "app_state \<Rightarrow> string \<Rightarrow> app_state" where
  "catch_regenerate st message =
     st\<lparr>error := js_or (Some message) ''Failed to regenerate image''\<rparr>"

text \<open>The rest of the handler, once the answer is there: the \<^verbatim>\<open>try\<close> body after the
  \<^verbatim>\<open>fetch\<close>, the \<^verbatim>\<open>catch\<close> and the \<^verbatim>\<open>finally\<close>.\<close>

fun regenerate_finish :: "app_state \<Rightarrow> string \<Rightarrow> image \<Rightarrow> regen_response \<Rightarrow> app_state" where
  "regenerate_finish st fn img (ROk (Inr r)) =
     st\<lparr>images := map (\<lambda>i. if filename i = fn then newImg img r else i) (images st),
        imageDb := replaceImage (imageDb st) fn (newImg img r),
        regeneratingFilename := None\<rparr>"
| "regenerate_finish st fn img (ROk (Inl e)) =
     (catch_regenerate st e)\<lparr>regeneratingFilename := None\<rparr>"
| "regenerate_finish st fn img (RNotOk (Inr detail)) =
     (catch_regenerate st (js_or detail ''Regeneration failed''))
       \<lparr>regeneratingFilename := None\<rparr>"
| "regenerate_finish st fn img (RNotOk (Inl e)) =
     (catch_regenerate st e)\<lparr>regeneratingFilename := None\<rparr>"
| "regenerate_finish st fn img (RFetchThrows e) =
     (catch_regenerate st e)\<lparr>regeneratingFilename := None\<rparr>"

definition handleRegenerate ::
  "app_state \<Rightarrow> string \<Rightarrow> image \<Rightarrow> regen_response \<Rightarrow> app_state \<times> request list" where
  "handleRegenerate st fn img resp =
     (if regenerate_blocked st then (st, [])
      else (regenerate_finish (fst (regenerate_begin st fn img)) fn img resp,
            snd (regenerate_begin st fn img)))"



subsection \<open>Keys of a variant and example variants\<close>

text \<open>The triple that the data model declares unique within a batch, as stored.\<close>

definition raw_key :: "'a product_scheme \<Rightarrow> string option \<times> string option \<times> string option" where
  "raw_key p = (ProductNumber p, GenderCode p, ColorCode p)"

text \<open>The same triple after the normalisation that \<open>deriveFilename\<close> applies to each
  component: hyphens removed, defaults filled in.\<close>

definition normalised_key :: "'a product_scheme \<Rightarrow> string \<times> string \<times> string" where
  "normalised_key p =
     (replace_dashes (js_or (ProductNumber p) []), js_or (GenderCode p) ''U'',
      js_or (ColorCode p) [])"

text \<open>A variant with the three key fields present and no names, for the examples.\<close>

definition variant :: "string \<Rightarrow> string \<Rightarrow> string \<Rightarrow> product" where
  "variant pn g c =
     \<lparr>ProductNumber = Some pn, ProductName = None, GenderCode = Some g, ColorCode = Some c,
      ColorName = None\<rparr>"

subsection \<open>Session records and example states\<close>

text \<open>The record that \<^verbatim>\<open>handleGenerateImages\<close> stores for a run that is not a resume,
  and the one \<^verbatim>\<open>handleGenerate\<close> stores in CSV mode.\<close>

definition fresh_session :: "app_state \<Rightarrow> session" where
  "fresh_session st =
     \<lparr>products = Some (generatedProducts st), photoStyle_s = Some (photoStyle st),
      completedFilenames = [], totalCount = length (generatedProducts st),
      mode = ''store-builder''\<rparr>"

definition csv_session :: "nat \<Rightarrow> session" where
  "csv_session rows =
     \<lparr>products = None, photoStyle_s = None, completedFilenames = [], totalCount = rows,
      mode = ''csv''\<rparr>"

text \<open>The filenames of the image events of a stream, in order.\<close>

fun image_filenames :: "sse_event list \<Rightarrow> string list" where
  "image_filenames [] = []"
| "image_filenames (ImageEv img # evs) = filename img # image_filenames evs"
| "image_filenames (ev # evs) = image_filenames evs"

text \<open>An image and client states for the examples: a client ready to generate two
  variants; the same client after a run that was interrupted with one image done; a
  client ready for a CSV run of two rows; a client whose gallery shows two images; and
  a client whose stored session lists both variants as completed.\<close>

definition example_image :: "string \<Rightarrow> string \<Rightarrow> image" where
  "example_image fn d =
     \<lparr>filename = fn, productName = None, colorName = None, productNumber = None,
      genderCode = None, colorCode = None, prompt = Some ''flat lay'', data = d\<rparr>"

definition example_state :: app_state where
  "example_state =
     init_state\<lparr>apiKey := ''key'',
       generatedProducts :=
         [variant ''CNC-P1000'' ''M'' ''NAV'', variant ''CNC-P1000'' ''M'' ''WHT''],
       photoStyle := ''studio''\<rparr>"

definition interrupted_state :: app_state where
  "interrupted_state =
     example_state\<lparr>generationSession :=
       Some ((fresh_session example_state)\<lparr>completedFilenames := [''CNCP1000MNAV'']\<rparr>)\<rparr>"

definition csv_ready_state :: app_state where
  "csv_ready_state =
     init_state\<lparr>apiKey := ''key'', fileSelected := True,
       validation := Some \<lparr>valid = True, rowCount = 2\<rparr>\<rparr>"

definition gallery_state :: app_state where
  "gallery_state =
     example_state\<lparr>images :=
         [example_image ''CNCP1000MNAV'' ''d1'', example_image ''CNCP1000MWHT'' ''d2''],
       imageDb :=
         [''CNCP1000MNAV'' \<mapsto> example_image ''CNCP1000MNAV'' ''d1'',
          ''CNCP1000MWHT'' \<mapsto> example_image ''CNCP1000MWHT'' ''d2'']\<rparr>"

definition finished_state :: app_state where
  "finished_state =
     example_state\<lparr>generationSession :=
       Some ((fresh_session example_state)
               \<lparr>completedFilenames := [''CNCP1000MNAV'', ''CNCP1000MWHT'']\<rparr>)\<rparr>"

section \<open>Properties\<close>

subsection \<open>Auxiliary facts\<close>

lemma set_foldl_Set_add: "set (foldl Set_add s xs) = set s \<union> set xs"
  by (induction xs arbitrary: s) auto

lemma Set_has_new_Set: "Set_has (new_Set xs) x = (x \<in> set xs)"
  by (simp add: Set_has_def new_Set_def set_foldl_Set_add)

lemma replace_dashes_filter: "replace_dashes s = filter (\<lambda>c. c \<noteq> CHR ''-'') s"
  by (induction s) auto

lemma replace_dashes_idem: "replace_dashes (replace_dashes s) = replace_dashes s"
  by (simp add: replace_dashes_filter)

lemma not_alnum_dash: "\<not> is_alnum (CHR ''-'')"
  by (simp add: is_alnum_def)

lemma replace_dashes_strip:
  assumes "\<forall>c\<in>set s. is_alnum c \<or> c = CHR ''-''"
  shows "replace_dashes s = strip_non_alnum s"
  unfolding strip_non_alnum_def replace_dashes_filter
  using assms by (intro filter_cong) (auto simp: not_alnum_dash)

lemma remaining_filter: "remaining C L = filter (\<lambda>p. deriveFilename p \<notin> set C) L"
  by (simp add: remaining_def Set_has_new_Set)

lemma deriveFilename_key:
  "deriveFilename p = (case normalised_key p of (n, g, c) \<Rightarrow> n @ g @ c)"
  by (simp add: deriveFilename_def normalised_key_def)

lemma deriveFilename_eq_key:
  assumes "deriveFilename p = deriveFilename q"
    and "length (fst (normalised_key p)) = length (fst (normalised_key q))"
    and "length (fst (snd (normalised_key p))) = length (fst (snd (normalised_key q)))"
  shows "normalised_key p = normalised_key q"
proof -
  obtain n g c where p: "normalised_key p = (n, g, c)" by (cases "normalised_key p") auto
  obtain n' g' c' where q: "normalised_key q = (n', g', c')" by (cases "normalised_key q") auto
  from assms(1) have e: "n @ g @ c = n' @ g' @ c'"
    by (simp add: deriveFilename_key p q)
  from assms(2) have "length n = length n'" by (simp add: p q)
  with e have n: "n = n'" and r: "g @ c = g' @ c'" by simp_all
  from assms(3) have "length g = length g'" by (simp add: p q)
  with r have "g = g'" and "c = c'" by simp_all
  with n show ?thesis by (simp add: p q)
qed

lemma deriveFilename_nonempty: "deriveFilename p \<noteq> []"
  by (simp add: deriveFilename_def js_or_def split: option.splits)

subsection \<open>Filename derivation\<close>

text \<open>C1, as stated, fails: the derivation that the resume computation uses is not the
  function of the specification. On the product number \<^verbatim>\<open>CNC.P-1000\<close> with gender
  code \<^verbatim>\<open>M\<close> and colour code \<^verbatim>\<open>NAV\<close> the client keeps the dot and appends no
  extension, where the specification's deriver gives \<^verbatim>\<open>CNCP1000MNAV.jpg\<close>.\<close>

theorem C1_counterexample:
  "deriveFilename (variant ''CNC.P-1000'' ''M'' ''NAV'') = ''CNC.P1000MNAV''
   \<and> spec_derive (variant ''CNC.P-1000'' ''M'' ''NAV'') = ''CNCP1000MNAV.jpg''
   \<and> deriveFilename (variant ''CNC.P-1000'' ''M'' ''NAV'')
       \<noteq> spec_derive (variant ''CNC.P-1000'' ''M'' ''NAV'')"
  by (simp add: variant_def deriveFilename_def spec_derive_def js_or_def strip_non_alnum_def
      is_alnum_def)

text \<open>C1, amended: the client-side filename is the product number without its hyphens
  (every other character is kept), then the gender code (\<^verbatim>\<open>U\<close> when missing or
  empty), then the colour code (empty when missing), without extension; the extension
  \<^verbatim>\<open>.jpg\<close> is added when a file is downloaded. \<^verbatim>\<open>CNC-P1000\<close>, \<^verbatim>\<open>M\<close>, \<^verbatim>\<open>NAV\<close>
  gives \<^verbatim>\<open>CNCP1000MNAV\<close> and the download name \<^verbatim>\<open>CNCP1000MNAV.jpg\<close>. Where hyphens
  are the only non-alphanumeric characters of the product number and the gender code is
  not the empty string, the download name is the filename of the specification.\<close>

theorem C1_client_filename:
  "deriveFilename p =
     filter (\<lambda>c. c \<noteq> CHR ''-'') (js_or (ProductNumber p) [])
       @ js_or (GenderCode p) ''U'' @ js_or (ColorCode p) []
   \<and> deriveFilename (variant ''CNC-P1000'' ''M'' ''NAV'') = ''CNCP1000MNAV''
   \<and> downloadName (deriveFilename (variant ''CNC-P1000'' ''M'' ''NAV'')) = ''CNCP1000MNAV.jpg''
   \<and> ((\<forall>c\<in>set (js_or (ProductNumber p) []). is_alnum c \<or> c = CHR ''-'')
        \<and> GenderCode p \<noteq> Some []
      \<longrightarrow> downloadName (deriveFilename p) = spec_derive p)"
proof (intro conjI impI)
  show "deriveFilename p =
     filter (\<lambda>c. c \<noteq> CHR ''-'') (js_or (ProductNumber p) [])
       @ js_or (GenderCode p) ''U'' @ js_or (ColorCode p) []"
    by (simp add: deriveFilename_def replace_dashes_filter)
  show "deriveFilename (variant ''CNC-P1000'' ''M'' ''NAV'') = ''CNCP1000MNAV''"
    by (simp add: variant_def deriveFilename_def js_or_def)
  then show "downloadName (deriveFilename (variant ''CNC-P1000'' ''M'' ''NAV'')) = ''CNCP1000MNAV.jpg''"
    by (simp add: downloadName_def)
next
  assume h: "(\<forall>c\<in>set (js_or (ProductNumber p) []). is_alnum c \<or> c = CHR ''-'')
        \<and> GenderCode p \<noteq> Some []"
  then have a: "replace_dashes (js_or (ProductNumber p) []) = strip_non_alnum (js_or (ProductNumber p) [])"
    by (intro replace_dashes_strip) simp
  have b: "js_or (ProductNumber p) [] = (case ProductNumber p of None \<Rightarrow> [] | Some s \<Rightarrow> s)"
    by (simp add: js_or_def split: option.splits)
  have c: "js_or (GenderCode p) ''U'' = (case GenderCode p of None \<Rightarrow> ''U'' | Some g \<Rightarrow> g)"
    using h by (simp add: js_or_def split: option.splits)
  have d: "js_or (ColorCode p) [] = (case ColorCode p of None \<Rightarrow> [] | Some s \<Rightarrow> s)"
    by (simp add: js_or_def split: option.splits)
  show "downloadName (deriveFilename p) = spec_derive p"
    unfolding downloadName_def deriveFilename_def spec_derive_def a
    unfolding b c d by simp
qed

theorem C1_client_filename_witness:
  "downloadName (deriveFilename (variant ''CNC-P1000'' ''M'' ''NAV''))
     = spec_derive (variant ''CNC-P1000'' ''M'' ''NAV'')
   \<and> spec_derive (variant ''CNC-P1000'' ''M'' ''NAV'') = ''CNCP1000MNAV.jpg''"
proof -
  have h: "(\<forall>c\<in>set (js_or (ProductNumber (variant ''CNC-P1000'' ''M'' ''NAV'')) []).
        is_alnum c \<or> c = CHR ''-'')
    \<and> GenderCode (variant ''CNC-P1000'' ''M'' ''NAV'') \<noteq> Some []"
    by (simp add: variant_def js_or_def is_alnum_def)
  have s: "spec_derive (variant ''CNC-P1000'' ''M'' ''NAV'') = ''CNCP1000MNAV.jpg''"
    by (simp add: variant_def spec_derive_def strip_non_alnum_def is_alnum_def)
  from C1_client_filename [of "variant ''CNC-P1000'' ''M'' ''NAV''"] h
  have "downloadName (deriveFilename (variant ''CNC-P1000'' ''M'' ''NAV''))
       = spec_derive (variant ''CNC-P1000'' ''M'' ''NAV'')" by blast
  with s show ?thesis by blast
qed

text \<open>C3, as stated, fails: two variants that differ in the stored triple (one product
  number has a hyphen, the other has none) derive the same filename.\<close>

theorem C3_counterexample:
  "raw_key (variant ''CNC-P1000'' ''M'' ''NAV'') \<noteq> raw_key (variant ''CNCP1000'' ''M'' ''NAV'')
   \<and> variant ''CNC-P1000'' ''M'' ''NAV'' \<noteq> variant ''CNCP1000'' ''M'' ''NAV''
   \<and> deriveFilename (variant ''CNC-P1000'' ''M'' ''NAV'')
       = deriveFilename (variant ''CNCP1000'' ''M'' ''NAV'')"
  by (simp add: raw_key_def variant_def deriveFilename_def js_or_def)

text \<open>Two further collisions between variants with different stored triples: a missing
  gender code against the code \<^verbatim>\<open>U\<close>, and components whose concatenation coincides
  although they are cut at different places.\<close>

lemma collision_default_gender:
  "raw_key (variant ''A1'' ''U'' ''NAV'') \<noteq> raw_key ((variant ''A1'' ''U'' ''NAV'')\<lparr>GenderCode := None\<rparr>)
   \<and> deriveFilename (variant ''A1'' ''U'' ''NAV'')
       = deriveFilename ((variant ''A1'' ''U'' ''NAV'')\<lparr>GenderCode := None\<rparr>)"
  by (simp add: raw_key_def variant_def deriveFilename_def js_or_def)

lemma collision_field_boundary:
  "normalised_key (variant ''A1'' ''M'' ''NAV'') \<noteq> normalised_key (variant ''A1M'' ''N'' ''AV'')
   \<and> deriveFilename (variant ''A1'' ''M'' ''NAV'') = deriveFilename (variant ''A1M'' ''N'' ''AV'')"
  by (simp add: normalised_key_def variant_def deriveFilename_def js_or_def)

text \<open>C3, amended: the normalisation in the derivation is idempotent (removing hyphens
  twice is removing them once, and a variant whose product number has been normalised
  derives the same filename), and the derivation is injective over any variant list in
  which no two distinct variants share the normalised triple (product number without
  hyphens, gender code with its default, colour code with its default), the hyphen-free
  product numbers all have one length and the gender codes all have one length.\<close>

theorem C3_derivation:
  "replace_dashes (replace_dashes s) = replace_dashes s
   \<and> deriveFilename (p\<lparr>ProductNumber := Some (replace_dashes (js_or (ProductNumber p) []))\<rparr>)
       = deriveFilename p
   \<and> ((\<forall>x\<in>set L. \<forall>y\<in>set L. normalised_key x = normalised_key y \<longrightarrow> x = y)
       \<and> (\<forall>x\<in>set L. \<forall>y\<in>set L.
             length (fst (normalised_key x)) = length (fst (normalised_key y))
             \<and> length (fst (snd (normalised_key x))) = length (fst (snd (normalised_key y))))
      \<longrightarrow> inj_on deriveFilename (set L))"
proof (intro conjI impI)
  show "replace_dashes (replace_dashes s) = replace_dashes s"
    by (rule replace_dashes_idem)
  show "deriveFilename (p\<lparr>ProductNumber := Some (replace_dashes (js_or (ProductNumber p) []))\<rparr>)
       = deriveFilename p"
    by (simp add: deriveFilename_def js_or_def replace_dashes_idem)
next
  assume h: "(\<forall>x\<in>set L. \<forall>y\<in>set L. normalised_key x = normalised_key y \<longrightarrow> x = y)
       \<and> (\<forall>x\<in>set L. \<forall>y\<in>set L.
             length (fst (normalised_key x)) = length (fst (normalised_key y))
             \<and> length (fst (snd (normalised_key x))) = length (fst (snd (normalised_key y))))"
  show "inj_on deriveFilename (set L)"
  proof (rule inj_onI)
    fix x y
    assume x: "x \<in> set L" and y: "y \<in> set L" and e: "deriveFilename x = deriveFilename y"
    from h x y have "length (fst (normalised_key x)) = length (fst (normalised_key y))"
      and "length (fst (snd (normalised_key x))) = length (fst (snd (normalised_key y)))"
      by blast+
    with e have "normalised_key x = normalised_key y"
      by (rule deriveFilename_eq_key)
    with h x y show "x = y" by blast
  qed
qed

theorem C3_derivation_witness:
  "deriveFilename (variant ''CNC-P1000'' ''M'' ''NAV'')
     \<noteq> deriveFilename (variant ''CNC-P1000'' ''M'' ''WHT'')"
proof -
  let ?L = "[variant ''CNC-P1000'' ''M'' ''NAV'', variant ''CNC-P1000'' ''M'' ''WHT'']"
  have u: "\<forall>x\<in>set ?L. \<forall>y\<in>set ?L. normalised_key x = normalised_key y \<longrightarrow> x = y"
    by (simp add: normalised_key_def variant_def js_or_def)
  have w: "\<forall>x\<in>set ?L. \<forall>y\<in>set ?L.
             length (fst (normalised_key x)) = length (fst (normalised_key y))
             \<and> length (fst (snd (normalised_key x))) = length (fst (snd (normalised_key y)))"
    by (simp add: normalised_key_def variant_def js_or_def)
  from C3_derivation [of _ _ ?L] u w have "inj_on deriveFilename (set ?L)"
    by blast
  moreover have "variant ''CNC-P1000'' ''M'' ''NAV'' \<noteq> variant ''CNC-P1000'' ''M'' ''WHT''"
    by (simp add: variant_def)
  ultimately show ?thesis
    by (auto simp: inj_on_def)
qed

subsection \<open>The resume computation\<close>

text \<open>C2, as stated, fails when the derived filename is the one of the specification
  (section 4.1): that filename of the variant \<^verbatim>\<open>CNC-P1000\<close>, \<^verbatim>\<open>M\<close>, \<^verbatim>\<open>NAV\<close> is
  \<^verbatim>\<open>CNCP1000MNAV.jpg\<close>, and with it in the completed set the resume computation still
  returns the variant.\<close>

theorem C2_counterexample:
  "spec_derive (variant ''CNC-P1000'' ''M'' ''NAV'') \<in> set [''CNCP1000MNAV.jpg'']
   \<and> remaining [''CNCP1000MNAV.jpg''] [variant ''CNC-P1000'' ''M'' ''NAV'']
       = [variant ''CNC-P1000'' ''M'' ''NAV'']"
  by (simp add: remaining_filter variant_def deriveFilename_def spec_derive_def js_or_def
      strip_non_alnum_def is_alnum_def)

text \<open>C2, amended: the resume computation returns the variants of the list, in the order
  of the list, whose client-side filename is not among the completed filenames; that
  filename is the product number without its hyphens, then the gender code (\<^verbatim>\<open>U\<close> when
  missing or empty), then the colour code (empty when missing), without extension. With
  no completed filename it returns the list itself, and applied to its own result it
  returns that result again. With \<^verbatim>\<open>CNCP1000MNAV\<close> completed, of the two colours of
  \<^verbatim>\<open>CNC-P1000\<close> the second remains; a variant without gender code is completed by
  the filename with \<^verbatim>\<open>U\<close>.\<close>

theorem C2_resume_by_client_filename:
  "remaining C L =
     filter (\<lambda>p. filter (\<lambda>c. c \<noteq> CHR ''-'') (case ProductNumber p of None \<Rightarrow> [] | Some n \<Rightarrow> n)
                  @ (case GenderCode p of None \<Rightarrow> ''U'' | Some g \<Rightarrow> if g = [] then ''U'' else g)
                  @ (case ColorCode p of None \<Rightarrow> [] | Some c \<Rightarrow> c)
                \<notin> set C) L
   \<and> subseq (remaining C L) L
   \<and> remaining [] L = L
   \<and> remaining C (remaining C L) = remaining C L
   \<and> remaining [''CNCP1000MNAV'']
        [variant ''CNC-P1000'' ''M'' ''NAV'', variant ''CNC-P1000'' ''M'' ''WHT'']
       = [variant ''CNC-P1000'' ''M'' ''WHT'']
   \<and> remaining [''A1UNAV''] [(variant ''A-1'' ''M'' ''NAV'')\<lparr>GenderCode := None\<rparr>] = []"
proof (intro conjI)
  have d: "deriveFilename p =
      filter (\<lambda>c. c \<noteq> CHR ''-'') (case ProductNumber p of None \<Rightarrow> [] | Some n \<Rightarrow> n)
        @ (case GenderCode p of None \<Rightarrow> ''U'' | Some g \<Rightarrow> if g = [] then ''U'' else g)
        @ (case ColorCode p of None \<Rightarrow> [] | Some c \<Rightarrow> c)" for p :: "'a product_scheme"
    by (simp add: deriveFilename_def replace_dashes_filter js_or_def split: option.splits)
  show "remaining C L =
     filter (\<lambda>p. filter (\<lambda>c. c \<noteq> CHR ''-'') (case ProductNumber p of None \<Rightarrow> [] | Some n \<Rightarrow> n)
                  @ (case GenderCode p of None \<Rightarrow> ''U'' | Some g \<Rightarrow> if g = [] then ''U'' else g)
                  @ (case ColorCode p of None \<Rightarrow> [] | Some c \<Rightarrow> c)
                \<notin> set C) L"
    unfolding remaining_filter d ..
  show "subseq (remaining C L) L"
    by (simp add: remaining_filter)
  show "remaining [] L = L"
    by (simp add: remaining_filter)
  show "remaining C (remaining C L) = remaining C L"
    by (simp add: remaining_filter)
  show "remaining [''CNCP1000MNAV'']
        [variant ''CNC-P1000'' ''M'' ''NAV'', variant ''CNC-P1000'' ''M'' ''WHT'']
       = [variant ''CNC-P1000'' ''M'' ''WHT'']"
    by (simp add: remaining_filter variant_def deriveFilename_def js_or_def)
  show "remaining [''A1UNAV''] [(variant ''A-1'' ''M'' ''NAV'')\<lparr>GenderCode := None\<rparr>] = []"
    by (simp add: remaining_filter variant_def deriveFilename_def js_or_def)
qed

subsection \<open>The session ledger\<close>

lemma session_after_events:
  assumes "CompleteEv \<notin> set evs" and "generationSession st = Some s"
  shows "generationSession (foldl on_event st evs)
           = Some (s\<lparr>completedFilenames := completedFilenames s @ image_filenames evs\<rparr>)"
  using assms
proof (induction evs arbitrary: st s)
  case Nil
  then show ?case by simp
next
  case (Cons ev evs)
  show ?case
  proof (cases ev)
    case (ImageEv img)
    have "generationSession (on_event st ev)
            = Some (s\<lparr>completedFilenames := completedFilenames s @ [filename img]\<rparr>)"
      using Cons.prems(2) ImageEv by simp
    with Cons.IH [of "on_event st ev"] Cons.prems(1) ImageEv show ?thesis by simp
  next
    case CompleteEv
    with Cons.prems(1) show ?thesis by simp
  qed (use Cons in simp_all)
qed

lemma session_catch_generate [simp]:
  "generationSession (catch_generate d st e) = generationSession st"
  by (cases e) simp_all

lemma isComplete_catch_generate [simp]:
  "isComplete (catch_generate d st e) = isComplete st"
  by (cases e) simp_all

lemma session_finally_generate [simp]:
  "generationSession (finally_generate st) = generationSession st"
  by (simp add: finally_generate_def)

lemma isComplete_events:
  "CompleteEv \<notin> set evs \<Longrightarrow> isComplete (foldl on_event st evs) = isComplete st"
proof (induction evs arbitrary: st)
  case Nil
  then show ?case by simp
next
  case (Cons ev evs)
  then show ?case by (cases ev) simp_all
qed

lemma session_after_complete:
  "generationSession (foldl on_event st (evs @ [CompleteEv])) = None"
  by simp

lemma session_generateImages_start:
  "generationSession (generateImages_start st ps isResume)
     = (if isResume then generationSession st else Some (fresh_session st))"
  by (simp add: generateImages_start_def fresh_session_def)

lemma session_generate_start:
  "generationSession (generate_start st rows) = Some (csv_session rows)"
  by (simp add: generate_start_def csv_session_def)

lemma session_try_stream:
  assumes "CompleteEv \<notin> set evs" and "generationSession st = Some s"
  shows "generationSession (try_stream a b st (Ok evs e))
           = Some (s\<lparr>completedFilenames := completedFilenames s @ image_filenames evs\<rparr>)"
  using session_after_events [OF assms] by (cases e) simp_all

lemma handleGenerateImages_runs:
  assumes "apiKey st \<noteq> []"
    and "(case pto of Some l \<Rightarrow> l | None \<Rightarrow> generatedProducts st) \<noteq> []"
    and "js_trim (photoStyle st) \<noteq> []"
  shows "handleGenerateImages st pto isResume resp
           = (finally_generate
                (try_stream ''Image generation failed'' ''Failed to generate images''
                   (generateImages_start st
                      (case pto of Some l \<Rightarrow> l | None \<Rightarrow> generatedProducts st) isResume) resp),
              [GenerateFromProductsReq (apiKey st)
                 (case pto of Some l \<Rightarrow> l | None \<Rightarrow> generatedProducts st) (photoStyle st)])"
  using assms by (simp add: handleGenerateImages_def Let_def)

lemma js_trim_studio: "js_trim ''studio'' = ''studio''"
  by (simp add: js_trim_def white_space_def)

lemma js_trim_white_space:
  "js_trim [CHR 0xC2, CHR 0xA0] = []
   \<and> js_trim ([CHR 0xEF, CHR 0xBB, CHR 0xBF] @ '' studio '' @ [CHR 0xE2, CHR 0x80, CHR 0xA8]) = ''studio''"
  by (simp add: js_trim_def white_space_def)

text \<open>C4, as stated, fails for a run started by resume: \<^verbatim>\<open>handleResume\<close> starts a run
  for the one remaining variant, and at the start of that run no session record is
  created; the stored record, with its one completed filename, stays.\<close>

theorem C4_counterexample:
  "map_option snd (handleResume interrupted_state (Ok [] (Thrown AbortError)))
     = Some [GenerateFromProductsReq ''key'' [variant ''CNC-P1000'' ''M'' ''WHT''] ''studio'']
   \<and> map_option completedFilenames
        (generationSession
           (generateImages_start interrupted_state [variant ''CNC-P1000'' ''M'' ''WHT''] True))
     = Some [''CNCP1000MNAV'']
   \<and> generationSession
        (generateImages_start interrupted_state [variant ''CNC-P1000'' ''M'' ''WHT''] True)
     \<noteq> Some (fresh_session interrupted_state)"
  by (simp add: handleResume_def interrupted_state_def example_state_def init_state_def
      fresh_session_def remaining_filter deriveFilename_def variant_def js_or_def
      handleGenerateImages_def js_trim_studio generateImages_start_def Let_def)

text \<open>C4, amended: a run that is not a resume creates the session record when it starts
  (mode, the variant list or null in CSV mode, no completed filename, the total count);
  a run started by resume keeps the stored record. Each image event appends its filename
  to the completed filenames of the record, so that after the events of a run the record
  lists the filenames of all its image events; the complete event and the dismissal of
  the resume banner set the session to null.\<close>

theorem C4_session_lifecycle:
  "generationSession (generateImages_start st ps False) = Some (fresh_session st)
   \<and> generationSession (generateImages_start st ps True) = generationSession st
   \<and> generationSession (generate_start st rows) = Some (csv_session rows)
   \<and> (generationSession st = Some s \<longrightarrow>
        generationSession (on_event st (ImageEv img))
          = Some (s\<lparr>completedFilenames := completedFilenames s @ [filename img]\<rparr>))
   \<and> generationSession (on_event st CompleteEv) = None
   \<and> generationSession (handleDismissResume st) = None
   \<and> (apiKey st \<noteq> [] \<and> (case pto of Some l \<Rightarrow> l | None \<Rightarrow> generatedProducts st) \<noteq> []
        \<and> js_trim (photoStyle st) \<noteq> [] \<and> CompleteEv \<notin> set evs \<longrightarrow>
        generationSession (fst (handleGenerateImages st pto False (Ok evs e)))
          = Some ((fresh_session st)\<lparr>completedFilenames := image_filenames evs\<rparr>)
        \<and> (generationSession st = Some s \<longrightarrow>
             generationSession (fst (handleGenerateImages st pto True (Ok evs e)))
               = Some (s\<lparr>completedFilenames := completedFilenames s @ image_filenames evs\<rparr>))
        \<and> generationSession
             (fst (handleGenerateImages st pto isResume (Ok (evs @ [CompleteEv]) Done))) = None)"
proof (intro conjI impI)
  show "generationSession (generateImages_start st ps False) = Some (fresh_session st)"
    by (simp add: session_generateImages_start)
  show "generationSession (generateImages_start st ps True) = generationSession st"
    by (simp add: session_generateImages_start)
  show "generationSession (generate_start st rows) = Some (csv_session rows)"
    by (rule session_generate_start)
  show "generationSession (on_event st CompleteEv) = None"
    by simp
  show "generationSession (handleDismissResume st) = None"
    by (simp add: handleDismissResume_def)
next
  assume "generationSession st = Some s"
  then show "generationSession (on_event st (ImageEv img))
          = Some (s\<lparr>completedFilenames := completedFilenames s @ [filename img]\<rparr>)"
    by simp
next
  assume g: "apiKey st \<noteq> [] \<and> (case pto of Some l \<Rightarrow> l | None \<Rightarrow> generatedProducts st) \<noteq> []
        \<and> js_trim (photoStyle st) \<noteq> [] \<and> CompleteEv \<notin> set evs"
  then have run: "\<And>r resp. handleGenerateImages st pto r resp
           = (finally_generate
                (try_stream ''Image generation failed'' ''Failed to generate images''
                   (generateImages_start st
                      (case pto of Some l \<Rightarrow> l | None \<Rightarrow> generatedProducts st) r) resp),
              [GenerateFromProductsReq (apiKey st)
                 (case pto of Some l \<Rightarrow> l | None \<Rightarrow> generatedProducts st) (photoStyle st)])"
    by (intro handleGenerateImages_runs) simp_all
  from g have nc: "CompleteEv \<notin> set evs" by simp
  show "generationSession (fst (handleGenerateImages st pto False (Ok evs e)))
          = Some ((fresh_session st)\<lparr>completedFilenames := image_filenames evs\<rparr>)"
    using session_try_stream [OF nc, of _ "fresh_session st"]
    by (simp add: run session_generateImages_start fresh_session_def)
  show "generationSession
             (fst (handleGenerateImages st pto isResume (Ok (evs @ [CompleteEv]) Done))) = None"
    by (simp add: run)
  assume "generationSession st = Some s"
  then show "generationSession (fst (handleGenerateImages st pto True (Ok evs e)))
               = Some (s\<lparr>completedFilenames := completedFilenames s @ image_filenames evs\<rparr>)"
    using session_try_stream [OF nc, of _ s]
    by (simp add: run session_generateImages_start)
qed

theorem C4_session_lifecycle_witness:
  "generationSession (on_event interrupted_state (ImageEv (example_image ''CNCP1000MWHT'' ''d'')))
     = Some ((fresh_session example_state)
               \<lparr>completedFilenames := [''CNCP1000MNAV'', ''CNCP1000MWHT'']\<rparr>)
   \<and> generationSession
        (fst (handleGenerateImages interrupted_state None False
               (Ok [ProgressEv 1 2 ''CNC-P1000'', ImageEv (example_image ''CNCP1000MNAV'' ''d'')]
                  (Thrown AbortError))))
     = Some ((fresh_session example_state)\<lparr>completedFilenames := [''CNCP1000MNAV'']\<rparr>)
   \<and> generationSession
        (fst (handleGenerateImages interrupted_state None True
               (Ok [ProgressEv 1 2 ''CNC-P1000'', ImageEv (example_image ''CNCP1000MNAV'' ''d'')]
                  (Thrown AbortError))))
     = Some ((fresh_session example_state)
               \<lparr>completedFilenames := [''CNCP1000MNAV'', ''CNCP1000MNAV'']\<rparr>)"
proof -
  let ?s = "(fresh_session example_state)\<lparr>completedFilenames := [''CNCP1000MNAV'']\<rparr>"
  let ?evs = "[ProgressEv 1 2 ''CNC-P1000'', ImageEv (example_image ''CNCP1000MNAV'' ''d'')]"
  have s: "generationSession interrupted_state = Some ?s"
    by (simp add: interrupted_state_def)
  have g: "apiKey interrupted_state \<noteq> []
      \<and> (case None of Some l \<Rightarrow> l | None \<Rightarrow> generatedProducts interrupted_state) \<noteq> []
      \<and> js_trim (photoStyle interrupted_state) \<noteq> [] \<and> CompleteEv \<notin> set ?evs"
    by (simp add: interrupted_state_def example_state_def init_state_def js_trim_studio)
  have f: "fresh_session interrupted_state = fresh_session example_state"
    by (simp add: fresh_session_def interrupted_state_def)
  note t = C4_session_lifecycle [of interrupted_state _ _ ?s "example_image ''CNCP1000MWHT'' ''d''"
      None ?evs "Thrown AbortError"]
  from t s have a: "generationSession (on_event interrupted_state (ImageEv (example_image ''CNCP1000MWHT'' ''d'')))
     = Some (?s\<lparr>completedFilenames := completedFilenames ?s @ [filename (example_image ''CNCP1000MWHT'' ''d'')]\<rparr>)"
    by blast
  from t g have b: "generationSession
        (fst (handleGenerateImages interrupted_state None False (Ok ?evs (Thrown AbortError))))
     = Some ((fresh_session interrupted_state)\<lparr>completedFilenames := image_filenames ?evs\<rparr>)"
    by blast
  from t g s have c: "generationSession
        (fst (handleGenerateImages interrupted_state None True (Ok ?evs (Thrown AbortError))))
     = Some (?s\<lparr>completedFilenames := completedFilenames ?s @ image_filenames ?evs\<rparr>)"
    by blast
  show ?thesis
    unfolding a b c f by (simp add: example_image_def)
qed

subsection \<open>Cancellation\<close>

lemma isComplete_finally_generate [simp]:
  "isComplete (finally_generate st) = isComplete st"
  by (simp add: finally_generate_def)

lemma error_finally_generate [simp]:
  "error (finally_generate st) = error st"
  by (simp add: finally_generate_def)

lemma handleGenerate_runs:
  assumes "validation st = Some v" and "apiKey st \<noteq> []" and "fileSelected st" and "valid v"
  shows "handleGenerate st resp
           = (finally_generate
                (try_stream ''Generation failed'' ''Failed to generate images''
                   (generate_start st (rowCount v)) resp),
              [GenerateReq (apiKey st)])"
  using assms by (simp add: handleGenerate_def)

text \<open>C5: an abort is not an error. The abort branch of the \<^verbatim>\<open>catch\<close> returns the state
  as it is, and \<^verbatim>\<open>handleCancel\<close> only empties the controller ref (its second component
  tells whether \<^verbatim>\<open>abort()\<close> was called). For a run of either generation handler that is
  aborted after any events without a complete event, the error text is the one
  accumulated from the events before the abort, and the completion flag is false; a run
  aborted before any answer has an empty error text.\<close>

theorem C5_cancel_is_no_error:
  "catch_generate dflt s AbortError = s
   \<and> handleCancel s = (s\<lparr>abortControllerRef := False\<rparr>, abortControllerRef s)
   \<and> (apiKey st \<noteq> [] \<and> (case pto of Some l \<Rightarrow> l | None \<Rightarrow> generatedProducts st) \<noteq> []
        \<and> js_trim (photoStyle st) \<noteq> [] \<and> CompleteEv \<notin> set evs \<longrightarrow>
        error (fst (handleGenerateImages st pto isResume (Ok evs (Thrown AbortError))))
          = error (foldl on_event
                     (generateImages_start st
                        (case pto of Some l \<Rightarrow> l | None \<Rightarrow> generatedProducts st) isResume) evs)
        \<and> \<not> isComplete (fst (handleGenerateImages st pto isResume (Ok evs (Thrown AbortError))))
        \<and> error (fst (handleGenerateImages st pto isResume (FetchThrows AbortError))) = []
        \<and> \<not> isComplete (fst (handleGenerateImages st pto isResume (FetchThrows AbortError))))
   \<and> (validation st = Some v \<and> apiKey st \<noteq> [] \<and> fileSelected st \<and> valid v
        \<and> CompleteEv \<notin> set evs \<longrightarrow>
        error (fst (handleGenerate st (Ok evs (Thrown AbortError))))
          = error (foldl on_event (generate_start st (rowCount v)) evs)
        \<and> \<not> isComplete (fst (handleGenerate st (Ok evs (Thrown AbortError)))))"
proof (intro conjI impI)
  show "catch_generate dflt s AbortError = s" by simp
  show "handleCancel s = (s\<lparr>abortControllerRef := False\<rparr>, abortControllerRef s)"
    by (simp add: handleCancel_def)
next
  assume g: "apiKey st \<noteq> [] \<and> (case pto of Some l \<Rightarrow> l | None \<Rightarrow> generatedProducts st) \<noteq> []
        \<and> js_trim (photoStyle st) \<noteq> [] \<and> CompleteEv \<notin> set evs"
  let ?ps = "case pto of Some l \<Rightarrow> l | None \<Rightarrow> generatedProducts st"
  from g have run: "\<And>resp. handleGenerateImages st pto isResume resp
           = (finally_generate
                (try_stream ''Image generation failed'' ''Failed to generate images''
                   (generateImages_start st ?ps isResume) resp),
              [GenerateFromProductsReq (apiKey st) ?ps (photoStyle st)])"
    by (intro handleGenerateImages_runs) simp_all
  from g have nc: "CompleteEv \<notin> set evs" by simp
  have s0: "\<not> isComplete (generateImages_start st ?ps isResume)"
    "error (generateImages_start st ?ps isResume) = []"
    by (simp_all add: generateImages_start_def)
  show "error (fst (handleGenerateImages st pto isResume (Ok evs (Thrown AbortError))))
          = error (foldl on_event (generateImages_start st ?ps isResume) evs)"
    by (simp add: run)
  show "\<not> isComplete (fst (handleGenerateImages st pto isResume (Ok evs (Thrown AbortError))))"
    using s0 by (simp add: run isComplete_events [OF nc])
  show "error (fst (handleGenerateImages st pto isResume (FetchThrows AbortError))) = []"
    using s0 by (simp add: run)
  show "\<not> isComplete (fst (handleGenerateImages st pto isResume (FetchThrows AbortError)))"
    using s0 by (simp add: run)
next
  assume g: "validation st = Some v \<and> apiKey st \<noteq> [] \<and> fileSelected st \<and> valid v
        \<and> CompleteEv \<notin> set evs"
  then have run: "\<And>resp. handleGenerate st resp
           = (finally_generate
                (try_stream ''Generation failed'' ''Failed to generate images''
                   (generate_start st (rowCount v)) resp),
              [GenerateReq (apiKey st)])"
    by (intro handleGenerate_runs) simp_all
  from g have nc: "CompleteEv \<notin> set evs" by simp
  have s0: "\<not> isComplete (generate_start st (rowCount v))"
    by (simp add: generate_start_def)
  show "error (fst (handleGenerate st (Ok evs (Thrown AbortError))))
          = error (foldl on_event (generate_start st (rowCount v)) evs)"
    by (simp add: run)
  show "\<not> isComplete (fst (handleGenerate st (Ok evs (Thrown AbortError))))"
    using s0 by (simp add: run isComplete_events [OF nc])
qed

theorem C5_cancel_is_no_error_witness:
  "error (fst (handleGenerateImages example_state None False
                 (Ok [ProgressEv 1 2 ''CNC-P1000'', ErrorEv ''rate limited'',
                      ProgressEv 2 2 ''CNC-P1000'']
                    (Thrown AbortError)))) = ''rate limited''
   \<and> isComplete (fst (handleGenerateImages example_state None False
                 (Ok [ProgressEv 1 2 ''CNC-P1000'', ErrorEv ''rate limited'',
                      ProgressEv 2 2 ''CNC-P1000'']
                    (Thrown AbortError)))) = False
   \<and> error (fst (handleGenerate csv_ready_state
                 (Ok [ProgressEv 1 2 ''CNC-P1000'', ErrorEv ''rate limited'']
                    (Thrown AbortError)))) = ''rate limited''
   \<and> isComplete (fst (handleGenerate csv_ready_state
                 (Ok [ProgressEv 1 2 ''CNC-P1000'', ErrorEv ''rate limited'']
                    (Thrown AbortError)))) = False"
proof -
  let ?evs = "[ProgressEv 1 2 ''CNC-P1000'', ErrorEv ''rate limited'', ProgressEv 2 2 ''CNC-P1000'']"
  let ?evs2 = "[ProgressEv 1 2 ''CNC-P1000'', ErrorEv ''rate limited'']"
  have g: "apiKey example_state \<noteq> []
      \<and> (case None of Some l \<Rightarrow> l | None \<Rightarrow> generatedProducts example_state) \<noteq> []
      \<and> js_trim (photoStyle example_state) \<noteq> [] \<and> CompleteEv \<notin> set ?evs"
    by (simp add: example_state_def init_state_def js_trim_studio)
  have g2: "validation csv_ready_state = Some \<lparr>valid = True, rowCount = 2\<rparr>
      \<and> apiKey csv_ready_state \<noteq> [] \<and> fileSelected csv_ready_state
      \<and> valid \<lparr>valid = True, rowCount = 2\<rparr> \<and> CompleteEv \<notin> set ?evs2"
    by (simp add: csv_ready_state_def init_state_def)
  from C5_cancel_is_no_error [of _ _ example_state None ?evs False] g
  have a: "error (fst (handleGenerateImages example_state None False (Ok ?evs (Thrown AbortError))))
          = error (foldl on_event
                     (generateImages_start example_state
                        (case None of Some l \<Rightarrow> l | None \<Rightarrow> generatedProducts example_state) False) ?evs)"
    and b: "\<not> isComplete (fst (handleGenerateImages example_state None False (Ok ?evs (Thrown AbortError))))"
    by blast+
  from C5_cancel_is_no_error [of _ _ csv_ready_state _ ?evs2 _ "\<lparr>valid = True, rowCount = 2\<rparr>"] g2
  have c: "error (fst (handleGenerate csv_ready_state (Ok ?evs2 (Thrown AbortError))))
          = error (foldl on_event (generate_start csv_ready_state (rowCount \<lparr>valid = True, rowCount = 2\<rparr>)) ?evs2)"
    and d: "\<not> isComplete (fst (handleGenerate csv_ready_state (Ok ?evs2 (Thrown AbortError))))"
    by blast+
  have a': "error (foldl on_event
                     (generateImages_start example_state
                        (case None of Some l \<Rightarrow> l | None \<Rightarrow> generatedProducts example_state) False) ?evs)
            = ''rate limited''"
    by (simp add: generateImages_start_def)
  have c': "error (foldl on_event (generate_start csv_ready_state (rowCount \<lparr>valid = True, rowCount = 2\<rparr>)) ?evs2)
            = ''rate limited''"
    by (simp add: generate_start_def)
  from a a' b c c' d show ?thesis by simp
qed

subsection \<open>Single-image regeneration\<close>

lemma regeneratingFilename_finish [simp]:
  "regeneratingFilename (regenerate_finish s fn img resp) = None"
  by (cases "(s, fn, img, resp)" rule: regenerate_finish.cases)
     (simp_all add: catch_regenerate_def)






subsection \<open>Regeneration replaces in place\<close>

lemma handleRegenerate_success:
  assumes "\<not> regenerate_blocked st"
  shows "fst (handleRegenerate st fn img (ROk (Inr r)))
           = st\<lparr>regeneratingFilename := Some fn, error := [],
                images := map (\<lambda>i. if filename i = fn then newImg img r else i) (images st),
                imageDb := replaceImage (imageDb st) fn (newImg img r),
                regeneratingFilename := None\<rparr>"
  using assms by (simp add: handleRegenerate_def regenerate_begin_def)

lemma images_after_regenerate:
  assumes "\<not> regenerate_blocked st"
  shows "images (fst (handleRegenerate st fn img (ROk (Inr r))))
           = map (\<lambda>i. if filename i = fn then newImg img r else i) (images st)"
  by (simp add: handleRegenerate_success [OF assms])

lemma imageDb_after_regenerate:
  assumes "\<not> regenerate_blocked st"
  shows "imageDb (fst (handleRegenerate st fn img (ROk (Inr r))))
           = (imageDb st)(fn \<mapsto> (newImg img r)\<lparr>filename := fn\<rparr>)"
  by (simp add: handleRegenerate_success [OF assms] replaceImage_def)

text \<open>C7: the new image keeps the filename and the identifying fields of the image the
  gallery passed and takes the data of the answer and its prompt (the old prompt when
  the answer has none). After a successful regeneration of filename \<open>fn\<close> the collection
  has its old length, every entry with another filename is unchanged at its position,
  every entry with filename \<open>fn\<close> is the new image, and the filenames are in the old
  order; the entry the gallery passed is itself with data and prompt replaced. In the
  object store the record under \<open>fn\<close> is the new image and every other key is unchanged.\<close>

theorem C7_regenerate_in_place:
  "filename (newImg img r) = filename img
   \<and> productNumber (newImg img r) = productNumber img
   \<and> productName (newImg img r) = productName img
   \<and> genderCode (newImg img r) = genderCode img
   \<and> colorCode (newImg img r) = colorCode img
   \<and> colorName (newImg img r) = colorName img
   \<and> data (newImg img r) = result_data r
   \<and> prompt (newImg img r) = js_or_opt (result_prompt r) (prompt img)
   \<and> (\<not> regenerate_blocked st \<longrightarrow>
        length (images (fst (handleRegenerate st fn img (ROk (Inr r))))) = length (images st)
        \<and> (\<forall>k < length (images st).
              images (fst (handleRegenerate st fn img (ROk (Inr r)))) ! k
                = (if filename (images st ! k) = fn then newImg img r else images st ! k))
        \<and> (filename img = fn \<longrightarrow>
              map filename (images (fst (handleRegenerate st fn img (ROk (Inr r)))))
                = map filename (images st))
        \<and> (\<forall>k < length (images st). images st ! k = img \<and> filename img = fn \<longrightarrow>
              images (fst (handleRegenerate st fn img (ROk (Inr r)))) ! k
                = (images st ! k)\<lparr>data := result_data r,
                     prompt := js_or_opt (result_prompt r) (prompt (images st ! k))\<rparr>)
        \<and> imageDb (fst (handleRegenerate st fn img (ROk (Inr r)))) fn
            = Some ((newImg img r)\<lparr>filename := fn\<rparr>)
        \<and> (\<forall>key. key \<noteq> fn \<longrightarrow>
              imageDb (fst (handleRegenerate st fn img (ROk (Inr r)))) key = imageDb st key))"
proof -
  have fields: "filename (newImg img r) = filename img
   \<and> productNumber (newImg img r) = productNumber img
   \<and> productName (newImg img r) = productName img
   \<and> genderCode (newImg img r) = genderCode img
   \<and> colorCode (newImg img r) = colorCode img
   \<and> colorName (newImg img r) = colorName img
   \<and> data (newImg img r) = result_data r
   \<and> prompt (newImg img r) = js_or_opt (result_prompt r) (prompt img)"
    by (simp add: newImg_def)
  have main: "length (images (fst (handleRegenerate st fn img (ROk (Inr r))))) = length (images st)
        \<and> (\<forall>k < length (images st).
              images (fst (handleRegenerate st fn img (ROk (Inr r)))) ! k
                = (if filename (images st ! k) = fn then newImg img r else images st ! k))
        \<and> (filename img = fn \<longrightarrow>
              map filename (images (fst (handleRegenerate st fn img (ROk (Inr r)))))
                = map filename (images st))
        \<and> (\<forall>k < length (images st). images st ! k = img \<and> filename img = fn \<longrightarrow>
              images (fst (handleRegenerate st fn img (ROk (Inr r)))) ! k
                = (images st ! k)\<lparr>data := result_data r,
                     prompt := js_or_opt (result_prompt r) (prompt (images st ! k))\<rparr>)
        \<and> imageDb (fst (handleRegenerate st fn img (ROk (Inr r)))) fn
            = Some ((newImg img r)\<lparr>filename := fn\<rparr>)
        \<and> (\<forall>key. key \<noteq> fn \<longrightarrow>
              imageDb (fst (handleRegenerate st fn img (ROk (Inr r)))) key = imageDb st key)"
    if nb: "\<not> regenerate_blocked st"
  proof (intro conjI allI impI)
    show "length (images (fst (handleRegenerate st fn img (ROk (Inr r))))) = length (images st)"
      by (simp add: images_after_regenerate [OF nb])
    show "images (fst (handleRegenerate st fn img (ROk (Inr r)))) ! k
                = (if filename (images st ! k) = fn then newImg img r else images st ! k)"
      if "k < length (images st)" for k
      using that by (simp add: images_after_regenerate [OF nb])
    show "map filename (images (fst (handleRegenerate st fn img (ROk (Inr r)))))
                = map filename (images st)" if "filename img = fn"
      using that by (simp add: images_after_regenerate [OF nb] newImg_def)
    show "images (fst (handleRegenerate st fn img (ROk (Inr r)))) ! k
                = (images st ! k)\<lparr>data := result_data r,
                     prompt := js_or_opt (result_prompt r) (prompt (images st ! k))\<rparr>"
      if "k < length (images st)" and "images st ! k = img \<and> filename img = fn" for k
      using that by (simp add: images_after_regenerate [OF nb] newImg_def)
    show "imageDb (fst (handleRegenerate st fn img (ROk (Inr r)))) fn
            = Some ((newImg img r)\<lparr>filename := fn\<rparr>)"
      by (simp add: imageDb_after_regenerate [OF nb])
    show "imageDb (fst (handleRegenerate st fn img (ROk (Inr r)))) key = imageDb st key"
      if "key \<noteq> fn" for key
      using that by (simp add: imageDb_after_regenerate [OF nb])
  qed
  from fields main show ?thesis by (intro conjI impI) simp_all
qed

theorem C7_regenerate_in_place_witness:
  "images (fst (handleRegenerate gallery_state ''CNCP1000MNAV''
                  (example_image ''CNCP1000MNAV'' ''d1'')
                  (ROk (Inr \<lparr>result_data = ''d3'', result_prompt = Some ''on white''\<rparr>)))) ! 0
     = (example_image ''CNCP1000MNAV'' ''d3'')\<lparr>prompt := Some ''on white''\<rparr>
   \<and> images (fst (handleRegenerate gallery_state ''CNCP1000MNAV''
                  (example_image ''CNCP1000MNAV'' ''d1'')
                  (ROk (Inr \<lparr>result_data = ''d3'', result_prompt = Some ''on white''\<rparr>)))) ! 1
     = example_image ''CNCP1000MWHT'' ''d2''
   \<and> length (images (fst (handleRegenerate gallery_state ''CNCP1000MNAV''
                  (example_image ''CNCP1000MNAV'' ''d1'')
                  (ROk (Inr \<lparr>result_data = ''d3'', result_prompt = Some ''on white''\<rparr>))))) = 2
   \<and> imageDb (fst (handleRegenerate gallery_state ''CNCP1000MNAV''
                  (example_image ''CNCP1000MNAV'' ''d1'')
                  (ROk (Inr \<lparr>result_data = ''d3'', result_prompt = Some ''on white''\<rparr>))))
        ''CNCP1000MWHT''
     = Some (example_image ''CNCP1000MWHT'' ''d2'')"
proof -
  let ?r = "\<lparr>result_data = ''d3'', result_prompt = Some ''on white''\<rparr>"
  let ?img = "example_image ''CNCP1000MNAV'' ''d1''"
  let ?st' = "fst (handleRegenerate gallery_state ''CNCP1000MNAV'' ?img (ROk (Inr ?r)))"
  have k: "apiKey gallery_state = ''key''"
    by (simp add: gallery_state_def example_state_def)
  have m: "regeneratingFilename gallery_state = None"
    by (simp add: gallery_state_def example_state_def init_state_def)
  have nb: "\<not> regenerate_blocked gallery_state"
    by (simp add: regenerate_blocked_def k m truthy_def)
  have imgs: "images gallery_state
                = [example_image ''CNCP1000MNAV'' ''d1'', example_image ''CNCP1000MWHT'' ''d2'']"
    by (simp add: gallery_state_def)
  have db: "imageDb gallery_state ''CNCP1000MWHT'' = Some (example_image ''CNCP1000MWHT'' ''d2'')"
    by (simp add: gallery_state_def)
  note t = C7_regenerate_in_place [of ?img ?r gallery_state "''CNCP1000MNAV''",
      THEN conjunct2, THEN conjunct2, THEN conjunct2, THEN conjunct2, THEN conjunct2,
      THEN conjunct2, THEN conjunct2, THEN conjunct2, THEN mp, OF nb]
  from t have len: "length (images ?st') = length (images gallery_state)"
    by (rule conjunct1)
  from t have nth: "\<forall>k < length (images gallery_state).
      images ?st' ! k
        = (if filename (images gallery_state ! k) = ''CNCP1000MNAV'' then newImg ?img ?r
           else images gallery_state ! k)"
    by (rule conjunct2 [THEN conjunct1])
  from t have other: "\<forall>key. key \<noteq> ''CNCP1000MNAV'' \<longrightarrow> imageDb ?st' key = imageDb gallery_state key"
    by (rule conjunct2 [THEN conjunct2, THEN conjunct2, THEN conjunct2, THEN conjunct2])
  have a: "images ?st' ! 0 = (example_image ''CNCP1000MNAV'' ''d3'')\<lparr>prompt := Some ''on white''\<rparr>"
    using nth [rule_format, of 0]
    by (simp add: imgs example_image_def newImg_def js_or_opt_def)
  have b: "images ?st' ! 1 = example_image ''CNCP1000MWHT'' ''d2''"
    using nth [rule_format, of 1]
    by (simp add: imgs example_image_def)
  have c: "length (images ?st') = 2"
    using len by (simp add: imgs)
  have d: "imageDb ?st' ''CNCP1000MWHT'' = Some (example_image ''CNCP1000MWHT'' ''d2'')"
    using other [rule_format, of "''CNCP1000MWHT''"] by (simp add: db)
  from a b c d show ?thesis by (intro conjI)
qed

subsection \<open>Resume\<close>

lemma handleResume_other_mode:
  assumes "generationSession st = Some s" and "mode s \<noteq> ''store-builder''"
  shows "handleResume st resp = Some (st\<lparr>showResumeBanner := False\<rparr>, [])"
  using assms by (simp add: handleResume_def)

lemma handleResume_nothing_left:
  assumes "generationSession st = Some s" and "mode s = ''store-builder''"
    and "products s = Some L" and "remaining (completedFilenames s) L = []"
  shows "handleResume st resp
           = Some (st\<lparr>showResumeBanner := False, generationSession := None\<rparr>, [])"
  using assms by (simp add: handleResume_def)

lemma session_after_csv_run:
  assumes "validation st = Some v" and "apiKey st \<noteq> []" and "fileSelected st" and "valid v"
    and "CompleteEv \<notin> set evs"
  shows "generationSession (fst (handleGenerate st (Ok evs e)))
           = Some ((csv_session (rowCount v))\<lparr>completedFilenames := image_filenames evs\<rparr>)"
  using session_try_stream [OF assms(5), of "generate_start st (rowCount v)"
      "csv_session (rowCount v)" _ _ e]
  by (simp add: handleGenerate_runs [OF assms(1-4)] session_generate_start csv_session_def)

lemma session_mode_on_event:
  assumes "\<forall>s. generationSession st = Some s \<longrightarrow> mode s = m"
  shows "\<forall>s. generationSession (on_event st ev) = Some s \<longrightarrow> mode s = m"
  using assms by (cases ev) (auto split: option.splits)

lemma session_mode_events:
  assumes "\<forall>s. generationSession st = Some s \<longrightarrow> mode s = m"
  shows "\<forall>s. generationSession (foldl on_event st evs) = Some s \<longrightarrow> mode s = m"
  using assms
proof (induction evs arbitrary: st)
  case Nil
  then show ?case by simp
next
  case (Cons ev evs)
  from session_mode_on_event [OF Cons.prems]
  have "\<forall>s. generationSession (on_event st ev) = Some s \<longrightarrow> mode s = m" .
  from Cons.IH [OF this] show ?case by simp
qed

lemma session_mode_try_stream:
  assumes "\<forall>s. generationSession st = Some s \<longrightarrow> mode s = m"
  shows "\<forall>s. generationSession (try_stream a b st resp) = Some s \<longrightarrow> mode s = m"
proof (cases resp)
  case (FetchThrows e)
  with assms show ?thesis by simp
next
  case (NotOk x)
  with assms show ?thesis by (cases x) simp_all
next
  case (Ok evs e)
  with session_mode_events [OF assms, of evs] show ?thesis by (cases e) simp_all
qed

lemma session_mode_after_csv_run:
  assumes "validation st = Some v" and "apiKey st \<noteq> []" and "fileSelected st" and "valid v"
  shows "\<forall>s. generationSession (fst (handleGenerate st r)) = Some s \<longrightarrow> mode s = ''csv''"
proof -
  have "\<forall>s. generationSession (generate_start st (rowCount v)) = Some s \<longrightarrow> mode s = ''csv''"
    by (simp add: session_generate_start csv_session_def)
  from session_mode_try_stream [OF this]
  show ?thesis by (simp add: handleGenerate_runs [OF assms])
qed

lemma handleResume_not_store_builder:
  assumes "\<forall>s. generationSession st = Some s \<longrightarrow> mode s \<noteq> ''store-builder''"
  shows "handleResume st resp = Some (st\<lparr>showResumeBanner := False\<rparr>, [])"
  using assms by (cases "generationSession st") (simp_all add: handleResume_def)

lemma resume_after_csv_run:
  assumes "validation st = Some v" and "apiKey st \<noteq> []" and "fileSelected st" and "valid v"
  shows "handleResume (fst (handleGenerate st r)) resp
            = Some ((fst (handleGenerate st r))\<lparr>showResumeBanner := False\<rparr>, [])"
proof (rule handleResume_not_store_builder, intro allI impI)
  fix s
  assume "generationSession (fst (handleGenerate st r)) = Some s"
  with session_mode_after_csv_run [OF assms, of r] have "mode s = ''csv''" by simp
  then show "mode s \<noteq> ''store-builder''" by simp
qed

text \<open>C8: for a stored session whose mode is not the store-builder mode, resume hides
  the banner and does nothing else: no request is sent. A CSV run stores such a session
  (no product list, the row count as total, mode \<^verbatim>\<open>csv\<close>), so after a CSV run, however
  it ended, resume starts no generation.\<close>

theorem C8_no_resume_without_variant_list:
  "(generationSession st = Some s \<and> mode s \<noteq> ''store-builder'' \<longrightarrow>
      handleResume st resp = Some (st\<lparr>showResumeBanner := False\<rparr>, []))
   \<and> (validation st = Some v \<and> apiKey st \<noteq> [] \<and> fileSelected st \<and> valid v
        \<and> CompleteEv \<notin> set evs \<longrightarrow>
        generationSession (fst (handleGenerate st (Ok evs e)))
          = Some \<lparr>products = None, photoStyle_s = None,
                  completedFilenames = image_filenames evs, totalCount = rowCount v,
                  mode = ''csv''\<rparr>
        \<and> handleResume (fst (handleGenerate st (Ok evs e))) resp
            = Some ((fst (handleGenerate st (Ok evs e)))\<lparr>showResumeBanner := False\<rparr>, []))
   \<and> (validation st = Some v \<and> apiKey st \<noteq> [] \<and> fileSelected st \<and> valid v \<longrightarrow>
        handleResume (fst (handleGenerate st r)) resp
          = Some ((fst (handleGenerate st r))\<lparr>showResumeBanner := False\<rparr>, []))"
proof (intro conjI impI)
  assume "generationSession st = Some s \<and> mode s \<noteq> ''store-builder''"
  then show "handleResume st resp = Some (st\<lparr>showResumeBanner := False\<rparr>, [])"
    by (intro handleResume_other_mode [of st s]) simp_all
next
  assume g: "validation st = Some v \<and> apiKey st \<noteq> [] \<and> fileSelected st \<and> valid v
        \<and> CompleteEv \<notin> set evs"
  then have s: "generationSession (fst (handleGenerate st (Ok evs e)))
           = Some ((csv_session (rowCount v))\<lparr>completedFilenames := image_filenames evs\<rparr>)"
    by (intro session_after_csv_run) simp_all
  then show "generationSession (fst (handleGenerate st (Ok evs e)))
          = Some \<lparr>products = None, photoStyle_s = None,
                  completedFilenames = image_filenames evs, totalCount = rowCount v,
                  mode = ''csv''\<rparr>"
    by (simp add: csv_session_def)
  show "handleResume (fst (handleGenerate st (Ok evs e))) resp
            = Some ((fst (handleGenerate st (Ok evs e)))\<lparr>showResumeBanner := False\<rparr>, [])"
    by (rule handleResume_other_mode [OF s]) (simp add: csv_session_def)
next
  assume "validation st = Some v \<and> apiKey st \<noteq> [] \<and> fileSelected st \<and> valid v"
  then show "handleResume (fst (handleGenerate st r)) resp
          = Some ((fst (handleGenerate st r))\<lparr>showResumeBanner := False\<rparr>, [])"
    by (intro resume_after_csv_run [of st v]) simp_all
qed

theorem C8_no_resume_without_variant_list_witness:
  "handleResume
     (fst (handleGenerate csv_ready_state
             (Ok [ImageEv (example_image ''CNCP1000MNAV'' ''d1'')] (Thrown AbortError))))
     (Ok [] Done)
     = Some ((fst (handleGenerate csv_ready_state
                     (Ok [ImageEv (example_image ''CNCP1000MNAV'' ''d1'')] (Thrown AbortError))))
               \<lparr>showResumeBanner := False\<rparr>, [])
   \<and> generationSession
        (fst (handleGenerate csv_ready_state
                (Ok [ImageEv (example_image ''CNCP1000MNAV'' ''d1'')] (Thrown AbortError))))
     = Some \<lparr>products = None, photoStyle_s = None, completedFilenames = [''CNCP1000MNAV''],
             totalCount = 2, mode = ''csv''\<rparr>
   \<and> handleResume
        (init_state\<lparr>generationSession :=
           Some \<lparr>products = None, photoStyle_s = None, completedFilenames = [],
                 totalCount = 2, mode = ''csv''\<rparr>\<rparr>) (Ok [] Done)
     = Some (init_state\<lparr>generationSession :=
               Some \<lparr>products = None, photoStyle_s = None, completedFilenames = [],
                     totalCount = 2, mode = ''csv''\<rparr>,
               showResumeBanner := False\<rparr>, [])"
proof -
  let ?evs = "[ImageEv (example_image ''CNCP1000MNAV'' ''d1'')]"
  let ?v = "\<lparr>valid = True, rowCount = 2\<rparr>"
  let ?s = "\<lparr>products = None, photoStyle_s = None, completedFilenames = [],
             totalCount = 2, mode = ''csv''\<rparr>"
  have g: "validation csv_ready_state = Some ?v \<and> apiKey csv_ready_state \<noteq> []
      \<and> fileSelected csv_ready_state \<and> valid ?v \<and> CompleteEv \<notin> set ?evs"
    by (simp add: csv_ready_state_def init_state_def)
  have h: "generationSession (init_state\<lparr>generationSession := Some ?s\<rparr>) = Some ?s
      \<and> mode ?s \<noteq> ''store-builder''"
    by simp
  note t = C8_no_resume_without_variant_list
  from t [THEN conjunct2, THEN conjunct1, THEN mp, OF g]
  have a: "generationSession (fst (handleGenerate csv_ready_state (Ok ?evs (Thrown AbortError))))
     = Some \<lparr>products = None, photoStyle_s = None, completedFilenames = image_filenames ?evs,
             totalCount = rowCount ?v, mode = ''csv''\<rparr>"
    and b: "handleResume (fst (handleGenerate csv_ready_state (Ok ?evs (Thrown AbortError))))
              (Ok [] Done)
     = Some ((fst (handleGenerate csv_ready_state (Ok ?evs (Thrown AbortError))))
               \<lparr>showResumeBanner := False\<rparr>, [])"
    by (rule conjunct1, rule conjunct2)
  from t [THEN conjunct1, THEN mp, OF h]
  have c: "handleResume (init_state\<lparr>generationSession := Some ?s\<rparr>) (Ok [] Done)
     = Some (init_state\<lparr>generationSession := Some ?s, showResumeBanner := False\<rparr>, [])" .
  from a have a': "generationSession
        (fst (handleGenerate csv_ready_state (Ok ?evs (Thrown AbortError))))
     = Some \<lparr>products = None, photoStyle_s = None, completedFilenames = [''CNCP1000MNAV''],
             totalCount = 2, mode = ''csv''\<rparr>"
    by (simp add: example_image_def)
  from b a' c show ?thesis by (intro conjI)
qed

text \<open>C9: when the derived filename of every variant of a stored store-builder session is
  among its completed filenames, nothing remains, and resume sends no request, hides the
  banner and sets the session to null.\<close>

theorem C9_resume_with_nothing_left:
  "generationSession st = Some s \<and> mode s = ''store-builder'' \<and> products s = Some L
     \<and> (\<forall>p\<in>set L. deriveFilename p \<in> set (completedFilenames s)) \<longrightarrow>
   remaining (completedFilenames s) L = []
   \<and> handleResume st resp
       = Some (st\<lparr>showResumeBanner := False, generationSession := None\<rparr>, [])"
proof (intro impI)
  assume h: "generationSession st = Some s \<and> mode s = ''store-builder'' \<and> products s = Some L
     \<and> (\<forall>p\<in>set L. deriveFilename p \<in> set (completedFilenames s))"
  then have r: "remaining (completedFilenames s) L = []"
    by (simp add: remaining_filter)
  with h have "handleResume st resp
       = Some (st\<lparr>showResumeBanner := False, generationSession := None\<rparr>, [])"
    by (intro handleResume_nothing_left [of st s L]) simp_all
  with r show "remaining (completedFilenames s) L = []
   \<and> handleResume st resp
       = Some (st\<lparr>showResumeBanner := False, generationSession := None\<rparr>, [])"
    by (rule conjI)
qed

theorem C9_resume_with_nothing_left_witness:
  "handleResume finished_state (Ok [] Done)
     = Some (finished_state\<lparr>showResumeBanner := False, generationSession := None\<rparr>, [])"
proof -
  let ?s = "(fresh_session example_state)
               \<lparr>completedFilenames := [''CNCP1000MNAV'', ''CNCP1000MWHT'']\<rparr>"
  let ?L = "[variant ''CNC-P1000'' ''M'' ''NAV'', variant ''CNC-P1000'' ''M'' ''WHT'']"
  have h: "generationSession finished_state = Some ?s \<and> mode ?s = ''store-builder''
      \<and> products ?s = Some ?L
      \<and> (\<forall>p\<in>set ?L. deriveFilename p \<in> set (completedFilenames ?s))"
    by (simp add: finished_state_def fresh_session_def example_state_def deriveFilename_def
        variant_def js_or_def)
  from C9_resume_with_nothing_left [THEN mp, OF h, THEN conjunct2]
  show ?thesis .
qed

end
